theory Spec2Isabelle
  imports Main
begin

section \<open>Python values and built-ins used by anonymizer.py\<close>

text \<open>
  A Python \<open>str\<close> is modelled as a \<open>string\<close>: one \<open>char\<close> per code point, so the
  model covers the strings whose code points are below 256. \<open>len\<close> is \<open>length\<close>.
  A \<open>bytes\<close> object is a separate type, so that text and encoded text cannot be mixed up.
\<close>

datatype bytes = Bytes string

text \<open>
  The values a row of the \<open>patients\<close> table can hold once \<open>database.py\<close> has turned
  it into a dict with \<open>dict(row)\<close>: an integer, a text, or \<open>None\<close> for NULL.
\<close>

datatype pyval = PyInt int | PyStr string | PyNone

type_synonym pydict = "string \<rightharpoonup> pyval"

text \<open>
  The exceptions the module can meet. Each of them is a subclass of Python's
  \<open>Exception\<close>, which is what the handler of \<open>decrypt_data\<close> catches.
\<close>

datatype exn =
    KeyError string
  | ValueError string
  | AttributeError
  | UnicodeEncodeError
  | UnicodeDecodeError
  | InvalidToken
  | TypeError
  | OtherException string

text \<open>Truthiness, as tested by \<open>not x\<close> and \<open>if not x\<close>.\<close>

fun truthy :: "pyval \<Rightarrow> bool" where
  "truthy (PyInt i) = (i \<noteq> 0)"
| "truthy (PyStr s) = (s \<noteq> [])"
| "truthy PyNone = False"

text \<open>\<open>str(i)\<close> for an integer: decimal digits, with a minus sign when negative.\<close>

definition digit_char :: "nat \<Rightarrow> char" where
  "digit_char d = char_of (48 + d)"

fun str_nat :: "nat \<Rightarrow> string" where
  "str_nat n = (if n < 10 then [digit_char n] else str_nat (n div 10) @ [digit_char (n mod 10)])"

definition str_int :: "int \<Rightarrow> string" where
  "str_int i = (if i < 0 then CHR ''-'' # str_nat (nat (- i)) else str_nat (nat i))"

text \<open>What an f-string puts in place of \<open>{v}\<close>.\<close>

fun py_format :: "pyval \<Rightarrow> string" where
  "py_format (PyInt i) = str_int i"
| "py_format (PyStr s) = s"
| "py_format PyNone = ''None''"

text \<open>
  The slice \<open>s[i:]\<close>: a negative start counts from the end, and a start outside the
  string is clamped, so the slice never raises.
\<close>

definition slice_from :: "int \<Rightarrow> 'a list \<Rightarrow> 'a list" where
  "slice_from i xs =
     (let n = int (length xs);
          start = (if i < 0 then max 0 (n + i) else min i n)
      in drop (nat start) xs)"

text \<open>
  \<open>str.lower()\<close> on code points below 256: the letters A to Z, and the capital letters
  of the Latin-1 block (192 to 222, without the multiplication sign 215), move up by 32.
\<close>

definition lower_char :: "char \<Rightarrow> char" where
  "lower_char c =
     (let n = (of_char c :: nat)
      in if (65 \<le> n \<and> n \<le> 90) \<or> (192 \<le> n \<and> n \<le> 222 \<and> n \<noteq> 215)
         then char_of (n + 32) else c)"

definition lower :: "string \<Rightarrow> string" where
  "lower s = map lower_char s"

text \<open>\<open>s.startswith(w)\<close> and the substring test \<open>w in s\<close>.\<close>

fun startswith :: "string \<Rightarrow> string \<Rightarrow> bool" where
  "startswith s [] = True"
| "startswith [] (w # ws) = False"
| "startswith (c # cs) (w # ws) = (c = w \<and> startswith cs ws)"

fun str_in :: "string \<Rightarrow> string \<Rightarrow> bool" where
  "str_in w [] = (w = [])"
| "str_in w (c # cs) = (startswith (c # cs) w \<or> str_in w cs)"

section \<open>The anonymization transforms\<close>

definition anonymize_name :: "pyval \<Rightarrow> string" where
  "anonymize_name patient_id = ''ANON_'' @ py_format patient_id"

definition anonymize_contact :: "string \<Rightarrow> string" where
  "anonymize_contact contact =
     (if contact = [] \<or> length contact < 4 then ''XXX-XXX-XXXX''
      else (let last_four = slice_from (- 4) contact in ''XXX-XXX-'' @ last_four))"

definition anonymize_diagnosis :: "string \<Rightarrow> string" where
  "anonymize_diagnosis diagnosis =
     (if diagnosis = [] then ''[Restricted]''
      else (let diagnosis_lower = lower diagnosis in
        if list_ex (\<lambda>word. str_in word diagnosis_lower) [''fever'', ''flu'', ''cold'', ''cough'']
          then ''Respiratory Condition''
        else if list_ex (\<lambda>word. str_in word diagnosis_lower) [''diabetes'', ''sugar'', ''insulin'']
          then ''Metabolic Condition''
        else if list_ex (\<lambda>word. str_in word diagnosis_lower) [''heart'', ''cardiac'', ''blood pressure'']
          then ''Cardiovascular Condition''
        else if list_ex (\<lambda>word. str_in word diagnosis_lower) [''fracture'', ''injury'', ''wound'']
          then ''Injury/Trauma''
        else ''General Medical Condition''))"

section \<open>The cipher service\<close>

text \<open>
  \<open>cryptography.fernet\<close>, the UTF-8 codec, Streamlit's secrets and the process
  environment are not part of the repository: they are parameters of the model.
  A Fernet object encrypts with fresh entropy on every call (an initialisation vector and
  a timestamp), which \<open>f_encrypt\<close> takes as its first argument; it decrypts without a
  time limit, so \<open>f_decrypt\<close> depends on the token alone.
\<close>

record fernet =
  f_encrypt :: "bytes \<Rightarrow> bytes \<Rightarrow> bytes"
  f_decrypt :: "bytes \<Rightarrow> exn + bytes"

text \<open>
  \<open>secrets_key\<close> is what the lookup of \<open>ENCRYPTION_KEY\<close> in \<open>st.secrets\<close> does: it
  raises, finds nothing, or finds a key. \<open>getenv_key\<close> is \<open>os.getenv('ENCRYPTION_KEY')\<close>.
  \<open>Fernet\<close> is the constructor, which rejects a malformed key.
\<close>

record py_env =
  secrets_key :: "exn + string option"
  getenv_key :: "string option"
  Fernet :: "bytes \<Rightarrow> exn + fernet"
  str_encode :: "string \<Rightarrow> exn + bytes"
  bytes_decode :: "bytes \<Rightarrow> exn + string"

text \<open>Sequencing of steps that may raise: the first exception ends the computation.\<close>

definition bindE :: "exn + 'a \<Rightarrow> ('a \<Rightarrow> exn + 'b) \<Rightarrow> exn + 'b" where
  "bindE m f = (case m of Inl e \<Rightarrow> Inl e | Inr v \<Rightarrow> f v)"

text \<open>\<open>try: body except Exception: handler\<close>.\<close>

definition try_except :: "exn + 'a \<Rightarrow> (exn \<Rightarrow> exn + 'a) \<Rightarrow> exn + 'a" where
  "try_except body handler = (case body of Inl e \<Rightarrow> handler e | Inr v \<Rightarrow> Inr v)"

text \<open>\<open>not key\<close> for a key that is \<open>None\<close> or a string.\<close>

fun key_missing :: "string option \<Rightarrow> bool" where
  "key_missing None = True"
| "key_missing (Some k) = (k = [])"

definition key_not_found :: string where
  "key_not_found =
     ''ENCRYPTION_KEY not found in environment or secrets. '' @
     ''Please create a .env file with ENCRYPTION_KEY=your-key''"

definition get_cipher :: "py_env \<Rightarrow> exn + fernet" where
  "get_cipher env =
     (let key = None;
          key = (case try_except (secrets_key env) (\<lambda>e. Inr None) of
                   Inr (Some k) \<Rightarrow> Some k
                 | _ \<Rightarrow> key);
          key = (if key_missing key then getenv_key env else key)
      in case key of
           None \<Rightarrow> Inl (ValueError key_not_found)
         | Some k \<Rightarrow>
             if k = [] then Inl (ValueError key_not_found)
             else bindE (str_encode env k) (\<lambda>key. Fernet env key))"

text \<open>
  \<open>encrypt_data\<close> has no handler: a missing key or a text that cannot be encoded
  raises. The first argument is the entropy that this call of \<open>cipher.encrypt\<close> draws.
\<close>

definition encrypt_data :: "py_env \<Rightarrow> bytes \<Rightarrow> string \<Rightarrow> exn + string" where
  "encrypt_data env entropy data =
     (if data = [] then Inr []
      else bindE (get_cipher env) (\<lambda>cipher.
           bindE (str_encode env data) (\<lambda>plain.
           let encrypted = f_encrypt cipher entropy plain
           in bytes_decode env encrypted)))"

text \<open>
  \<open>x.encode()\<close> on a value taken from the row: only a \<open>str\<close> has the method.
\<close>

fun encode_val :: "py_env \<Rightarrow> pyval \<Rightarrow> exn + bytes" where
  "encode_val env (PyStr s) = str_encode env s"
| "encode_val env (PyInt i) = Inl AttributeError"
| "encode_val env PyNone = Inl AttributeError"

text \<open>The body of the \<open>try\<close> block of \<open>decrypt_data\<close>.\<close>

definition decrypt_body :: "py_env \<Rightarrow> pyval \<Rightarrow> exn + string" where
  "decrypt_body env encrypted_data =
     bindE (get_cipher env) (\<lambda>cipher.
     bindE (encode_val env encrypted_data) (\<lambda>token.
     bindE (f_decrypt cipher token) (\<lambda>decrypted.
     bytes_decode env decrypted)))"

definition decrypt_data :: "py_env \<Rightarrow> pyval \<Rightarrow> exn + string" where
  "decrypt_data env encrypted_data =
     (if \<not> truthy encrypted_data then Inr []
      else try_except (decrypt_body env encrypted_data) (\<lambda>e. Inr ''[Decryption Error]''))"

section \<open>The disclosure engine\<close>

text \<open>\<open>d[k]\<close> raises \<open>KeyError\<close> when the key is absent.\<close>

definition getitem :: "pydict \<Rightarrow> string \<Rightarrow> exn + pyval" where
  "getitem d k = (case d k of None \<Rightarrow> Inl (KeyError k) | Some v \<Rightarrow> Inr v)"

text \<open>The dict display that every branch returns, its five entries already evaluated.\<close>

definition view :: "pyval \<Rightarrow> string \<Rightarrow> string \<Rightarrow> string \<Rightarrow> pyval \<Rightarrow> pydict" where
  "view pid nm ct dg da =
     [''patient_id'' \<mapsto> pid, ''name'' \<mapsto> PyStr nm, ''contact'' \<mapsto> PyStr ct,
      ''diagnosis'' \<mapsto> PyStr dg, ''date_added'' \<mapsto> da]"

text \<open>
  The entries of each dict display are evaluated from top to bottom, so the first
  missing key or raising call decides the exception.
\<close>

definition prepare_patient_data_for_role :: "py_env \<Rightarrow> pydict \<Rightarrow> string \<Rightarrow> exn + pydict" where
  "prepare_patient_data_for_role env patient_data role =
     (if role = ''admin'' then
        bindE (getitem patient_data ''patient_id'') (\<lambda>pid.
        bindE (bindE (getitem patient_data ''name'') (decrypt_data env)) (\<lambda>nm.
        bindE (bindE (getitem patient_data ''contact'') (decrypt_data env)) (\<lambda>ct.
        bindE (bindE (getitem patient_data ''diagnosis'') (decrypt_data env)) (\<lambda>dg.
        bindE (getitem patient_data ''date_added'') (\<lambda>da.
        Inr (view pid nm ct dg da))))))
      else if role = ''doctor'' then
        bindE (getitem patient_data ''patient_id'') (\<lambda>pid.
        bindE (bindE (getitem patient_data ''patient_id'') (\<lambda>p. Inr (anonymize_name p))) (\<lambda>nm.
        bindE (bindE (bindE (getitem patient_data ''contact'') (decrypt_data env))
                 (\<lambda>c. Inr (anonymize_contact c))) (\<lambda>ct.
        bindE (bindE (bindE (getitem patient_data ''diagnosis'') (decrypt_data env))
                 (\<lambda>g. Inr (anonymize_diagnosis g))) (\<lambda>dg.
        bindE (getitem patient_data ''date_added'') (\<lambda>da.
        Inr (view pid nm ct dg da))))))
      else if role = ''receptionist'' then
        bindE (getitem patient_data ''patient_id'') (\<lambda>pid.
        bindE (bindE (getitem patient_data ''patient_id'') (\<lambda>p. Inr (anonymize_name p))) (\<lambda>nm.
        bindE (bindE (bindE (getitem patient_data ''contact'') (decrypt_data env))
                 (\<lambda>c. Inr (anonymize_contact c))) (\<lambda>ct.
        bindE (getitem patient_data ''date_added'') (\<lambda>da.
        Inr (view pid nm ct ''[Restricted]'' da)))))
      else
        bindE (getitem patient_data ''patient_id'') (\<lambda>pid.
        bindE (getitem patient_data ''date_added'') (\<lambda>da.
        Inr (view pid ''[Restricted]'' ''[Restricted]'' ''[Restricted]'' da))))"

section \<open>Notions used to state the properties\<close>

text \<open>
  Decryption of a stored value fails when the value is not empty and the \<open>try\<close> block
  of \<open>decrypt_data\<close> raises: no key, a text that cannot be encoded, a token that Fernet
  rejects, or a plaintext that cannot be decoded.
\<close>

definition decryption_fails :: "py_env \<Rightarrow> pyval \<Rightarrow> bool" where
  "decryption_fails env x = (truthy x \<and> isl (decrypt_body env x))"

text \<open>
  The contracts of the two libraries under which the cipher round-trips, from their
  documentation: decoding undoes encoding on both sides, and a Fernet object decrypts
  each of its own tokens to the plaintext, its tokens being non-empty text.
\<close>

definition codec_roundtrip :: "py_env \<Rightarrow> bool" where
  "codec_roundtrip env =
     ((\<forall>s b. str_encode env s = Inr b \<longrightarrow> bytes_decode env b = Inr s) \<and>
      (\<forall>b s. bytes_decode env b = Inr s \<longrightarrow> str_encode env s = Inr b))"

definition fernet_roundtrip :: "py_env \<Rightarrow> fernet \<Rightarrow> bool" where
  "fernet_roundtrip env c =
     (\<forall>n m. f_decrypt c (f_encrypt c n m) = Inr m \<and>
            (\<exists>t. t \<noteq> [] \<and> bytes_decode env (f_encrypt c n m) = Inr t))"

text \<open>
  The categorization as the specification words it: the lower-cased diagnosis is
  searched for the keywords of each group, the groups in a fixed order, and the first
  group with a keyword that occurs in it decides.
\<close>

definition mentions :: "string \<Rightarrow> string list \<Rightarrow> bool" where
  "mentions d ks = (\<exists>k \<in> set ks. \<exists>ps ss. lower d = ps @ k @ ss)"

definition diagnosis_category_spec :: "string \<Rightarrow> string" where
  "diagnosis_category_spec d =
     (if mentions d [''fever'', ''flu'', ''cold'', ''cough''] then ''Respiratory Condition''
      else if mentions d [''diabetes'', ''sugar'', ''insulin''] then ''Metabolic Condition''
      else if mentions d [''heart'', ''cardiac'', ''blood pressure'']
        then ''Cardiovascular Condition''
      else if mentions d [''fracture'', ''injury'', ''wound''] then ''Injury/Trauma''
      else ''General Medical Condition'')"

section \<open>A reference environment\<close>

text \<open>
  An environment like the fixture of the test suite: no Streamlit secrets, a key in the
  process environment. Its codec maps each code point to one byte, and its cipher is a
  stand-in that tags the plaintext with the key and one byte of entropy; it rejects a
  token that does not start with the key.
\<close>

fun entropy_byte :: "string \<Rightarrow> char" where
  "entropy_byte [] = CHR ''A''"
| "entropy_byte (c # cs) = c"

fun ref_encrypt :: "string \<Rightarrow> bytes \<Rightarrow> bytes \<Rightarrow> bytes" where
  "ref_encrypt k (Bytes iv) (Bytes m) = Bytes (k @ entropy_byte iv # m)"

fun ref_decrypt :: "string \<Rightarrow> bytes \<Rightarrow> exn + bytes" where
  "ref_decrypt k (Bytes t) =
     (if startswith t k \<and> length k < length t then Inr (Bytes (drop (Suc (length k)) t))
      else Inl InvalidToken)"

definition ref_fernet :: "string \<Rightarrow> fernet" where
  "ref_fernet k = \<lparr> f_encrypt = ref_encrypt k, f_decrypt = ref_decrypt k \<rparr>"

fun ref_Fernet :: "bytes \<Rightarrow> exn + fernet" where
  "ref_Fernet (Bytes k) = Inr (ref_fernet k)"

fun ref_decode :: "bytes \<Rightarrow> exn + string" where
  "ref_decode (Bytes s) = Inr s"

definition ref_env :: py_env where
  "ref_env = \<lparr> secrets_key = Inl (OtherException ''StreamlitSecretNotFoundError''),
               getenv_key = Some ''K1'',
               Fernet = ref_Fernet,
               str_encode = (\<lambda>s. Inr (Bytes s)),
               bytes_decode = ref_decode \<rparr>"

text \<open>The same process without any key.\<close>

definition keyless_env :: py_env where
  "keyless_env = ref_env \<lparr> getenv_key := None \<rparr>"

text \<open>
  The sample record of the test suite: the three sensitive fields are what
  \<open>encrypt_data\<close> returns in the reference environment.
\<close>

definition ref_enc :: "string \<Rightarrow> pyval" where
  "ref_enc s = (case encrypt_data ref_env (Bytes ''A'') s of Inr t \<Rightarrow> PyStr t | Inl e \<Rightarrow> PyNone)"

definition sample_patient_data :: pydict where
  "sample_patient_data =
     [''patient_id'' \<mapsto> PyInt 1, ''name'' \<mapsto> ref_enc ''John Doe'',
      ''contact'' \<mapsto> ref_enc ''123-456-7890'', ''diagnosis'' \<mapsto> ref_enc ''Fever and flu'',
      ''date_added'' \<mapsto> PyStr ''2025-01-01'']"

section \<open>Basic facts\<close>

lemma bindE_Inl: "bindE (Inl e) f = Inl e"
  by (simp add: bindE_def)

lemma bindE_Inr: "bindE (Inr v) f = f v"
  by (simp add: bindE_def)

subsection \<open>The substring test\<close>

lemma startswith_iff: "startswith s w \<longleftrightarrow> (\<exists>ss. s = w @ ss)"
  by (induction s w rule: startswith.induct) auto

lemma str_in_iff: "str_in w s \<longleftrightarrow> (\<exists>ps ss. s = ps @ w @ ss)"
proof (induction s)
  case Nil
  then show ?case by auto
next
  case (Cons c cs)
  show ?case
  proof
    assume "str_in w (c # cs)"
    then consider "startswith (c # cs) w" | "str_in w cs" by auto
    then show "\<exists>ps ss. c # cs = ps @ w @ ss"
    proof cases
      case 1
      then obtain ss where "c # cs = w @ ss" by (auto simp: startswith_iff)
      then have "c # cs = [] @ w @ ss" by simp
      then show ?thesis by blast
    next
      case 2
      then obtain ps ss where "cs = ps @ w @ ss" using Cons.IH by auto
      then have "c # cs = (c # ps) @ w @ ss" by simp
      then show ?thesis by blast
    qed
  next
    assume "\<exists>ps ss. c # cs = ps @ w @ ss"
    then obtain ps ss where eq: "c # cs = ps @ w @ ss" by blast
    show "str_in w (c # cs)"
    proof (cases ps)
      case Nil
      with eq have "startswith (c # cs) w" by (auto simp: startswith_iff)
      then show ?thesis by simp
    next
      case (Cons p ps')
      with eq have "cs = ps' @ w @ ss" by simp
      then have "str_in w cs" using Cons.IH by blast
      then show ?thesis by simp
    qed
  qed
qed

lemma list_ex_str_in: "list_ex (\<lambda>word. str_in word (lower d)) ks = mentions d ks"
  by (simp add: list_ex_iff mentions_def str_in_iff)

subsection \<open>Contact masking\<close>

lemma slice_from_last4: "4 \<le> length c \<Longrightarrow> slice_from (- 4) c = drop (length c - 4) c"
  by (simp add: slice_from_def Let_def nat_diff_distrib' max_def)

lemma anonymize_contact_short: "length c < 4 \<Longrightarrow> anonymize_contact c = ''XXX-XXX-XXXX''"
  by (simp add: anonymize_contact_def)

lemma anonymize_contact_long:
  "4 \<le> length c \<Longrightarrow> anonymize_contact c = ''XXX-XXX-'' @ drop (length c - 4) c"
  by (auto simp: anonymize_contact_def Let_def slice_from_last4)

lemma anonymize_contact_length: "length (anonymize_contact c) = 12"
  by (cases "length c < 4") (simp_all add: anonymize_contact_short anonymize_contact_long)

lemma anonymize_contact_prefix: "take 8 (anonymize_contact c) = ''XXX-XXX-''"
  by (cases "length c < 4") (simp_all add: anonymize_contact_short anonymize_contact_long)

subsection \<open>The cipher service and the engine\<close>

lemma decrypt_data_returns: "\<exists>s. decrypt_data env x = Inr s"
  by (cases "decrypt_body env x") (simp_all add: decrypt_data_def try_except_def)

lemma decrypt_data_empty: "decrypt_data env (PyStr []) = Inr []"
  by (simp add: decrypt_data_def)

lemma decrypt_data_fails:
  "decryption_fails env x \<Longrightarrow> decrypt_data env x = Inr ''[Decryption Error]''"
  by (cases "decrypt_body env x") (simp_all add: decryption_fails_def decrypt_data_def try_except_def)

lemma decrypt_data_succeeds:
  "truthy x \<Longrightarrow> decrypt_body env x = Inr s \<Longrightarrow> decrypt_data env x = Inr s"
  by (simp add: decrypt_data_def try_except_def)

lemma view_lookup:
  "view pid nm ct dg da ''patient_id'' = Some pid"
  "view pid nm ct dg da ''name'' = Some (PyStr nm)"
  "view pid nm ct dg da ''contact'' = Some (PyStr ct)"
  "view pid nm ct dg da ''diagnosis'' = Some (PyStr dg)"
  "view pid nm ct dg da ''date_added'' = Some da"
  by (simp_all add: view_def)

lemma prepare_admin:
  assumes "d ''patient_id'' = Some pid" "d ''name'' = Some n" "d ''contact'' = Some c"
    "d ''diagnosis'' = Some g" "d ''date_added'' = Some da"
    "decrypt_data env n = Inr sn" "decrypt_data env c = Inr sc" "decrypt_data env g = Inr sg"
  shows "prepare_patient_data_for_role env d ''admin'' = Inr (view pid sn sc sg da)"
  using assms by (simp add: prepare_patient_data_for_role_def getitem_def bindE_def)

lemma prepare_doctor:
  assumes "d ''patient_id'' = Some pid" "d ''contact'' = Some c"
    "d ''diagnosis'' = Some g" "d ''date_added'' = Some da"
    "decrypt_data env c = Inr sc" "decrypt_data env g = Inr sg"
  shows "prepare_patient_data_for_role env d ''doctor'' =
    Inr (view pid (anonymize_name pid) (anonymize_contact sc) (anonymize_diagnosis sg) da)"
  using assms by (simp add: prepare_patient_data_for_role_def getitem_def bindE_def)

lemma prepare_receptionist:
  assumes "d ''patient_id'' = Some pid" "d ''contact'' = Some c" "d ''date_added'' = Some da"
    "decrypt_data env c = Inr sc"
  shows "prepare_patient_data_for_role env d ''receptionist'' =
    Inr (view pid (anonymize_name pid) (anonymize_contact sc) ''[Restricted]'' da)"
  using assms by (simp add: prepare_patient_data_for_role_def getitem_def bindE_def)

lemma prepare_other:
  assumes "role \<noteq> ''admin''" "role \<noteq> ''doctor''" "role \<noteq> ''receptionist''"
    "d ''patient_id'' = Some pid" "d ''date_added'' = Some da"
  shows "prepare_patient_data_for_role env d role =
    Inr (view pid ''[Restricted]'' ''[Restricted]'' ''[Restricted]'' da)"
  using assms by (simp add: prepare_patient_data_for_role_def getitem_def bindE_def)

lemma get_cipher_ref: "get_cipher ref_env = Inr (ref_fernet ''K1'')"
  by (simp add: get_cipher_def ref_env_def try_except_def bindE_def)

lemma get_cipher_keyless: "get_cipher keyless_env = Inl (ValueError key_not_found)"
  by (simp add: get_cipher_def keyless_env_def ref_env_def try_except_def bindE_def)

lemma ref_env_codec:
  "str_encode ref_env s = Inr (Bytes s)"
  "bytes_decode ref_env b = ref_decode b"
  by (simp_all add: ref_env_def)

lemma encrypt_data_ref:
  "s \<noteq> [] \<Longrightarrow> encrypt_data ref_env (Bytes ''A'') s = Inr (''K1A'' @ s)"
  by (simp add: encrypt_data_def get_cipher_ref bindE_def ref_fernet_def ref_env_codec)

lemma ref_enc_eq: "s \<noteq> [] \<Longrightarrow> ref_enc s = PyStr (''K1A'' @ s)"
  by (simp add: ref_enc_def encrypt_data_ref)

lemma decrypt_body_ref:
  "decrypt_body ref_env (PyStr t) = bindE (ref_decrypt ''K1'' (Bytes t)) ref_decode"
  by (simp add: decrypt_body_def get_cipher_ref bindE_def ref_fernet_def ref_env_codec)

lemma decrypt_data_ref_token: "decrypt_data ref_env (PyStr (''K1A'' @ s)) = Inr s"
  by (simp add: decrypt_data_def decrypt_body_ref bindE_def try_except_def)

lemma sample_lookup:
  "sample_patient_data ''patient_id'' = Some (PyInt 1)"
  "sample_patient_data ''name'' = Some (PyStr ''K1AJohn Doe'')"
  "sample_patient_data ''contact'' = Some (PyStr ''K1A123-456-7890'')"
  "sample_patient_data ''diagnosis'' = Some (PyStr ''K1AFever and flu'')"
  "sample_patient_data ''date_added'' = Some (PyStr ''2025-01-01'')"
  by (simp_all add: sample_patient_data_def ref_enc_eq)

lemma anonymize_contact_tail:
  "drop 8 (anonymize_contact c) = ''XXXX'' \<or>
   drop 8 (anonymize_contact c) = drop (length c - 4) c"
  by (cases "length c < 4") (simp_all add: anonymize_contact_short anonymize_contact_long)

lemma encrypt_data_empty: "encrypt_data env n [] = Inr []"
  by (simp add: encrypt_data_def)

lemma codec_roundtrip_ref: "codec_roundtrip ref_env"
  unfolding codec_roundtrip_def
proof (intro conjI allI impI)
  fix s b assume "str_encode ref_env s = Inr b"
  then show "bytes_decode ref_env b = Inr s" by (auto simp: ref_env_codec)
next
  fix b s assume "bytes_decode ref_env b = Inr s"
  then show "str_encode ref_env s = Inr b" by (cases b) (auto simp: ref_env_codec)
qed

lemma fernet_roundtrip_ref: "fernet_roundtrip ref_env (ref_fernet k)"
  unfolding fernet_roundtrip_def
proof (intro allI)
  fix n m
  obtain iv where n: "n = Bytes iv" by (cases n)
  obtain pl where m: "m = Bytes pl" by (cases m)
  have pre: "startswith (k @ ys) k" for ys by (simp add: startswith_iff)
  show "f_decrypt (ref_fernet k) (f_encrypt (ref_fernet k) n m) = Inr m \<and>
        (\<exists>t. t \<noteq> [] \<and> bytes_decode ref_env (f_encrypt (ref_fernet k) n m) = Inr t)"
    using pre [of "entropy_byte iv # pl"] by (simp add: ref_fernet_def n m ref_env_codec)
qed

lemma not_fails_empty: "\<not> decryption_fails env (PyStr [])"
  by (simp add: decryption_fails_def)

lemma anonymize_diagnosis_empty: "anonymize_diagnosis [] = ''[Restricted]''"
  by (simp add: anonymize_diagnosis_def)

lemma anonymize_contact_sentinel: "anonymize_contact ''[Decryption Error]'' = ''XXX-XXX-ror]''"
  by (simp add: anonymize_contact_long)

lemma anonymize_diagnosis_sentinel:
  "anonymize_diagnosis ''[Decryption Error]'' = ''General Medical Condition''"
  by code_simp

lemma decryption_fails_ref: "decryption_fails ref_env (PyStr ''not-a-token'')"
  by (simp add: decryption_fails_def decrypt_body_ref bindE_def)

lemma anonymize_contact_same_last_four:
  assumes "(length p < 4 \<and> length q < 4) \<or>
           (4 \<le> length p \<and> 4 \<le> length q \<and> drop (length q - 4) q = drop (length p - 4) p)"
  shows "anonymize_contact q = anonymize_contact p"
  using assms by (auto simp: anonymize_contact_short anonymize_contact_long)

lemma prepare_masked_roles:
  assumes "role \<in> {''doctor'', ''receptionist''}"
    and "d ''patient_id'' = Some pid" and "d ''contact'' = Some x"
    and "d ''diagnosis'' = Some g" and "d ''date_added'' = Some da"
    and "decrypt_data env x = Inr plain" and "decrypt_data env g = Inr sg"
  shows "prepare_patient_data_for_role env d role =
           Inr (view pid (anonymize_name pid) (anonymize_contact plain)
                  (if role = ''doctor'' then anonymize_diagnosis sg else ''[Restricted]'') da)"
proof -
  from assms(1) consider "role = ''doctor''" | "role = ''receptionist''" by auto
  then show ?thesis
  proof cases
    case 1
    then show ?thesis using assms(2-7) by (simp add: prepare_doctor)
  next
    case 2
    then show ?thesis using assms(2-7) by (simp add: prepare_receptionist)
  qed
qed

section \<open>Properties of the transforms\<close>

text \<open>
  C3. For every contact string \<open>c\<close>, masking returns the full placeholder
  \<open>XXX-XXX-XXXX\<close> when \<open>c\<close> is empty or shorter than 4 characters, and otherwise the
  prefix \<open>XXX-XXX-\<close> followed by exactly the last 4 characters of \<open>c\<close>, whatever they
  are. In particular \<open>123-456-7890\<close> masks to \<open>XXX-XXX-7890\<close>, and both \<open>123\<close> and the
  empty string mask to the placeholder.
\<close>

theorem anonymize_contact_masks_all_but_last_four:
  "(length c < 4 \<longrightarrow> anonymize_contact c = ''XXX-XXX-XXXX'') \<and>
   (4 \<le> length c \<longrightarrow>
      (\<exists>pre suf. c = pre @ suf \<and> length suf = 4 \<and> anonymize_contact c = ''XXX-XXX-'' @ suf)) \<and>
   anonymize_contact ''123-456-7890'' = ''XXX-XXX-7890'' \<and>
   anonymize_contact ''123'' = ''XXX-XXX-XXXX'' \<and>
   anonymize_contact [] = ''XXX-XXX-XXXX''"
proof (intro conjI impI)
  assume "length c < 4"
  then show "anonymize_contact c = ''XXX-XXX-XXXX''" by (rule anonymize_contact_short)
next
  assume len: "4 \<le> length c"
  have "c = take (length c - 4) c @ drop (length c - 4) c" by simp
  moreover have "length (drop (length c - 4) c) = 4" using len by simp
  moreover have "anonymize_contact c = ''XXX-XXX-'' @ drop (length c - 4) c"
    using len by (rule anonymize_contact_long)
  ultimately show "\<exists>pre suf. c = pre @ suf \<and> length suf = 4 \<and> anonymize_contact c = ''XXX-XXX-'' @ suf"
    by blast
next
  show "anonymize_contact ''123-456-7890'' = ''XXX-XXX-7890''"
    by (simp add: anonymize_contact_long)
next
  show "anonymize_contact ''123'' = ''XXX-XXX-XXXX''"
    by (simp add: anonymize_contact_short)
next
  show "anonymize_contact [] = ''XXX-XXX-XXXX''"
    by (simp add: anonymize_contact_short)
qed

text \<open>
  C3, at a contact of two characters and at one of eight whose last four are not all
  digits.
\<close>

theorem anonymize_contact_masks_witness:
  "anonymize_contact ''12'' = ''XXX-XXX-XXXX'' \<and>
   (\<exists>pre suf. ''555-01ab'' = pre @ suf \<and> length suf = 4 \<and>
      anonymize_contact ''555-01ab'' = ''XXX-XXX-'' @ suf)"
  using anonymize_contact_masks_all_but_last_four [of "''12''"]
    anonymize_contact_masks_all_but_last_four [of "''555-01ab''"]
  by simp

text \<open>
  C4. For every non-empty diagnosis \<open>d\<close>, the category computed by the code is the one
  the specification describes: \<open>d\<close> is lower-cased and the first of the four keyword
  groups (respiratory, metabolic, cardiovascular, injury) with a keyword occurring in it
  decides; without any keyword the category is the generic one.
\<close>

theorem anonymize_diagnosis_categories:
  "d \<noteq> [] \<Longrightarrow> anonymize_diagnosis d = diagnosis_category_spec d"
  unfolding anonymize_diagnosis_def diagnosis_category_spec_def Let_def list_ex_str_in
  by simp

text \<open>
  C4, at a diagnosis with a two-word keyword in capitals, at one with keywords of two
  groups, and at one with none.
\<close>

theorem anonymize_diagnosis_categories_witness:
  "''High Blood Pressure'' \<noteq> [] \<and>
   diagnosis_category_spec ''High Blood Pressure'' = ''Cardiovascular Condition'' \<and>
   diagnosis_category_spec ''Fever and diabetes'' = ''Respiratory Condition'' \<and>
   diagnosis_category_spec ''Unknown condition'' = ''General Medical Condition''"
proof -
  have a: "anonymize_diagnosis ''High Blood Pressure'' = ''Cardiovascular Condition''"
    by code_simp
  have b: "anonymize_diagnosis ''Fever and diabetes'' = ''Respiratory Condition''"
    by code_simp
  have c: "anonymize_diagnosis ''Unknown condition'' = ''General Medical Condition''"
    by code_simp
  show ?thesis
    using anonymize_diagnosis_categories [of "''High Blood Pressure''"]
      anonymize_diagnosis_categories [of "''Fever and diabetes''"]
      anonymize_diagnosis_categories [of "''Unknown condition''"] a b c
    by simp
qed

text \<open>
  C10. For every string, the masked contact has length 12 and starts with \<open>XXX-XXX-\<close>.
  Hence the contact of a doctor or receptionist view consists of that prefix and either
  \<open>XXXX\<close> or the last four characters of what the stored contact decrypted to. Nothing
  else of the contact reaches the view: replacing the stored contact by one whose
  plaintext masks alike, in particular one with the same last four characters, or
  another one shorter than four, leaves the whole view unchanged.
\<close>

theorem masked_contact_shape:
  "length (anonymize_contact c) = 12 \<and> take 8 (anonymize_contact c) = ''XXX-XXX-'' \<and>
   (role \<in> {''doctor'', ''receptionist''} \<longrightarrow>
    d ''patient_id'' = Some pid \<longrightarrow> d ''contact'' = Some x \<longrightarrow>
    d ''diagnosis'' = Some g \<longrightarrow> d ''date_added'' = Some da \<longrightarrow>
    (\<exists>v s plain. prepare_patient_data_for_role env d role = Inr v \<and>
       decrypt_data env x = Inr plain \<and> v ''contact'' = Some (PyStr s) \<and>
       length s = 12 \<and> take 8 s = ''XXX-XXX-'' \<and>
       (drop 8 s = ''XXXX'' \<or> drop 8 s = drop (length plain - 4) plain) \<and>
       (\<forall>x' plain'. decrypt_data env x' = Inr plain' \<longrightarrow>
          anonymize_contact plain' = anonymize_contact plain \<longrightarrow>
          prepare_patient_data_for_role env (d(''contact'' \<mapsto> x')) role = Inr v) \<and>
       (\<forall>x' plain'. decrypt_data env x' = Inr plain' \<longrightarrow>
          (length plain < 4 \<and> length plain' < 4) \<or>
          (4 \<le> length plain \<and> 4 \<le> length plain' \<and>
           drop (length plain' - 4) plain' = drop (length plain - 4) plain) \<longrightarrow>
          prepare_patient_data_for_role env (d(''contact'' \<mapsto> x')) role = Inr v)))"
proof (intro conjI impI)
  show "length (anonymize_contact c) = 12" by (rule anonymize_contact_length)
  show "take 8 (anonymize_contact c) = ''XXX-XXX-''" by (rule anonymize_contact_prefix)
next
  assume role: "role \<in> {''doctor'', ''receptionist''}"
    and keys: "d ''patient_id'' = Some pid" "d ''contact'' = Some x"
      "d ''diagnosis'' = Some g" "d ''date_added'' = Some da"
  obtain plain where plain: "decrypt_data env x = Inr plain"
    using decrypt_data_returns by blast
  obtain sg where sg: "decrypt_data env g = Inr sg" using decrypt_data_returns by blast
  let ?dg = "if role = ''doctor'' then anonymize_diagnosis sg else ''[Restricted]''"
  let ?v = "view pid (anonymize_name pid) (anonymize_contact plain) ?dg da"
  have v: "prepare_patient_data_for_role env d role = Inr ?v"
    using role keys plain sg by (rule prepare_masked_roles)
  have ct: "?v ''contact'' = Some (PyStr (anonymize_contact plain))"
    by (simp add: view_lookup)
  have same: "prepare_patient_data_for_role env (d(''contact'' \<mapsto> x')) role = Inr ?v"
    if dec: "decrypt_data env x' = Inr plain'"
      and eq: "anonymize_contact plain' = anonymize_contact plain" for x' plain'
  proof -
    have "prepare_patient_data_for_role env (d(''contact'' \<mapsto> x')) role =
            Inr (view pid (anonymize_name pid) (anonymize_contact plain') ?dg da)"
      using role _ _ _ _ dec sg by (rule prepare_masked_roles) (simp_all add: keys)
    with eq show ?thesis by simp
  qed
  have same4: "prepare_patient_data_for_role env (d(''contact'' \<mapsto> x')) role = Inr ?v"
    if dec: "decrypt_data env x' = Inr plain'"
      and l4: "(length plain < 4 \<and> length plain' < 4) \<or>
          (4 \<le> length plain \<and> 4 \<le> length plain' \<and>
           drop (length plain' - 4) plain' = drop (length plain - 4) plain)" for x' plain'
    using dec anonymize_contact_same_last_four [OF l4] by (rule same)
  show "\<exists>v s plain. prepare_patient_data_for_role env d role = Inr v \<and>
       decrypt_data env x = Inr plain \<and> v ''contact'' = Some (PyStr s) \<and>
       length s = 12 \<and> take 8 s = ''XXX-XXX-'' \<and>
       (drop 8 s = ''XXXX'' \<or> drop 8 s = drop (length plain - 4) plain) \<and>
       (\<forall>x' plain'. decrypt_data env x' = Inr plain' \<longrightarrow>
          anonymize_contact plain' = anonymize_contact plain \<longrightarrow>
          prepare_patient_data_for_role env (d(''contact'' \<mapsto> x')) role = Inr v) \<and>
       (\<forall>x' plain'. decrypt_data env x' = Inr plain' \<longrightarrow>
          (length plain < 4 \<and> length plain' < 4) \<or>
          (4 \<le> length plain \<and> 4 \<le> length plain' \<and>
           drop (length plain' - 4) plain' = drop (length plain - 4) plain) \<longrightarrow>
          prepare_patient_data_for_role env (d(''contact'' \<mapsto> x')) role = Inr v)"
  proof (intro exI conjI allI impI)
    show "prepare_patient_data_for_role env d role = Inr ?v" by (rule v)
    show "decrypt_data env x = Inr plain" by (rule plain)
    show "?v ''contact'' = Some (PyStr (anonymize_contact plain))" by (rule ct)
    show "length (anonymize_contact plain) = 12" by (rule anonymize_contact_length)
    show "take 8 (anonymize_contact plain) = ''XXX-XXX-''" by (rule anonymize_contact_prefix)
    show "drop 8 (anonymize_contact plain) = ''XXXX'' \<or>
          drop 8 (anonymize_contact plain) = drop (length plain - 4) plain"
      by (rule anonymize_contact_tail)
  next
    fix x' plain'
    assume "decrypt_data env x' = Inr plain'"
      and "anonymize_contact plain' = anonymize_contact plain"
    then show "prepare_patient_data_for_role env (d(''contact'' \<mapsto> x')) role = Inr ?v"
      by (rule same)
  next
    fix x' plain'
    assume "decrypt_data env x' = Inr plain'"
      and "(length plain < 4 \<and> length plain' < 4) \<or>
          (4 \<le> length plain \<and> 4 \<le> length plain' \<and>
           drop (length plain' - 4) plain' = drop (length plain - 4) plain)"
    then show "prepare_patient_data_for_role env (d(''contact'' \<mapsto> x')) role = Inr ?v"
      by (rule same4)
  qed
qed

text \<open>
  C10, at the error marker and at the receptionist view of the sample record, which is
  the same for a contact that differs before its last four characters.
\<close>

theorem masked_contact_witness:
  "''receptionist'' \<in> {''doctor'', ''receptionist''} \<and>
   length (anonymize_contact ''[Decryption Error]'') = 12 \<and>
   (\<exists>v s. prepare_patient_data_for_role ref_env sample_patient_data ''receptionist'' = Inr v \<and>
      v ''contact'' = Some (PyStr s) \<and> length s = 12 \<and> take 8 s = ''XXX-XXX-'' \<and>
      (drop 8 s = ''XXXX'' \<or> drop 8 s = ''7890'') \<and>
      prepare_patient_data_for_role ref_env
        (sample_patient_data(''contact'' \<mapsto> PyStr ''K1A999-000-7890'')) ''receptionist'' = Inr v)"
proof -
  have dec: "decrypt_data ref_env (PyStr ''K1A123-456-7890'') = Inr ''123-456-7890''"
    using decrypt_data_ref_token [of "''123-456-7890''"] by simp
  have dec': "decrypt_data ref_env (PyStr ''K1A999-000-7890'') = Inr ''999-000-7890''"
    using decrypt_data_ref_token [of "''999-000-7890''"] by simp
  have len: "length (anonymize_contact ''[Decryption Error]'') = 12"
    using masked_contact_shape [of "''[Decryption Error]''"] by simp
  from masked_contact_shape [of "''[Decryption Error]''" "''receptionist''"
        sample_patient_data "PyInt 1" "PyStr ''K1A123-456-7890''" "PyStr ''K1AFever and flu''"
        "PyStr ''2025-01-01''" ref_env]
  obtain v s plain where
    v: "prepare_patient_data_for_role ref_env sample_patient_data ''receptionist'' = Inr v"
    and p: "decrypt_data ref_env (PyStr ''K1A123-456-7890'') = Inr plain"
    and s: "v ''contact'' = Some (PyStr s)" "length s = 12" "take 8 s = ''XXX-XXX-''"
      "drop 8 s = ''XXXX'' \<or> drop 8 s = drop (length plain - 4) plain"
    and same: "\<forall>x' plain'. decrypt_data ref_env x' = Inr plain' \<longrightarrow>
          (length plain < 4 \<and> length plain' < 4) \<or>
          (4 \<le> length plain \<and> 4 \<le> length plain' \<and>
           drop (length plain' - 4) plain' = drop (length plain - 4) plain) \<longrightarrow>
          prepare_patient_data_for_role ref_env
            (sample_patient_data(''contact'' \<mapsto> x')) ''receptionist'' = Inr v"
    by (auto simp: sample_lookup)
  from p dec have pl: "plain = ''123-456-7890''" by simp
  have "prepare_patient_data_for_role ref_env
        (sample_patient_data(''contact'' \<mapsto> PyStr ''K1A999-000-7890'')) ''receptionist'' = Inr v"
    using same dec' by (simp add: pl)
  with v s pl len show ?thesis by auto
qed

section \<open>Properties of the cipher service\<close>

text \<open>
  C7. \<open>decrypt_data\<close> returns a string for every input. For a non-empty string that is
  not a valid token under the active key (whenever a cipher is obtained and the string
  encodes, Fernet rejects it), the string returned is \<open>[Decryption Error]\<close>.
\<close>

theorem decrypt_data_never_raises:
  "(\<exists>r. decrypt_data env x = Inr r) \<and>
   (s \<noteq> [] \<longrightarrow>
    (\<forall>c b. get_cipher env = Inr c \<longrightarrow> str_encode env s = Inr b \<longrightarrow> isl (f_decrypt c b)) \<longrightarrow>
    decrypt_data env (PyStr s) = Inr ''[Decryption Error]'')"
proof (intro conjI impI)
  show "\<exists>r. decrypt_data env x = Inr r" by (rule decrypt_data_returns)
next
  assume ne: "s \<noteq> []"
    and rej: "\<forall>c b. get_cipher env = Inr c \<longrightarrow> str_encode env s = Inr b \<longrightarrow> isl (f_decrypt c b)"
  have "isl (decrypt_body env (PyStr s))"
  proof (cases "get_cipher env")
    case (Inl e)
    then show ?thesis by (simp add: decrypt_body_def bindE_Inl)
  next
    case c: (Inr c)
    show ?thesis
    proof (cases "str_encode env s")
      case (Inl e)
      then show ?thesis using c by (simp add: decrypt_body_def bindE_Inl bindE_Inr)
    next
      case b: (Inr b)
      with c rej have "isl (f_decrypt c b)" by blast
      then obtain e where "f_decrypt c b = Inl e" by (cases "f_decrypt c b") auto
      then show ?thesis using c b by (simp add: decrypt_body_def bindE_Inl bindE_Inr)
    qed
  qed
  with ne have "decryption_fails env (PyStr s)" by (simp add: decryption_fails_def)
  then show "decrypt_data env (PyStr s) = Inr ''[Decryption Error]''"
    by (rule decrypt_data_fails)
qed

text \<open>
  C7, at a malformed token, at a token made under another key, and at a valid token in
  a process without a key.
\<close>

theorem decrypt_data_never_raises_witness:
  "''not-a-token'' \<noteq> [] \<and>
   decrypt_data ref_env (PyStr ''not-a-token'') = Inr ''[Decryption Error]'' \<and>
   decrypt_data ref_env (PyStr ''K2AJohn Doe'') = Inr ''[Decryption Error]'' \<and>
   decrypt_data keyless_env (PyStr ''K1AJohn Doe'') = Inr ''[Decryption Error]''"
proof -
  have a: "\<forall>c b. get_cipher ref_env = Inr c \<longrightarrow> str_encode ref_env ''not-a-token'' = Inr b \<longrightarrow>
             isl (f_decrypt c b)"
    by (auto simp: get_cipher_ref ref_env_codec ref_fernet_def)
  have b: "\<forall>c b. get_cipher ref_env = Inr c \<longrightarrow> str_encode ref_env ''K2AJohn Doe'' = Inr b \<longrightarrow>
             isl (f_decrypt c b)"
    by (auto simp: get_cipher_ref ref_env_codec ref_fernet_def)
  have c: "\<forall>c b. get_cipher keyless_env = Inr c \<longrightarrow> str_encode keyless_env ''K1AJohn Doe'' = Inr b \<longrightarrow>
             isl (f_decrypt c b)"
    by (simp add: get_cipher_keyless)
  show ?thesis
    using decrypt_data_never_raises [of ref_env PyNone "''not-a-token''"]
      decrypt_data_never_raises [of ref_env PyNone "''K2AJohn Doe''"]
      decrypt_data_never_raises [of keyless_env PyNone "''K1AJohn Doe''"] a b c
    by simp
qed

text \<open>
  C8. Both directions map the empty string to the empty string. For a non-empty
  plaintext \<open>p\<close> that can be encoded, in an environment that yields a cipher and whose
  codec and Fernet object keep their round-trip contracts, \<open>encrypt_data\<close> returns a
  token and \<open>decrypt_data\<close> of that token is \<open>p\<close>, whatever entropy the encryption drew.
\<close>

theorem encrypt_decrypt_roundtrip:
  "encrypt_data env n [] = Inr [] \<and> decrypt_data env (PyStr []) = Inr [] \<and>
   (p \<noteq> [] \<longrightarrow> get_cipher env = Inr c \<longrightarrow> fernet_roundtrip env c \<longrightarrow>
    codec_roundtrip env \<longrightarrow> str_encode env p = Inr b \<longrightarrow>
    (\<exists>t. encrypt_data env n p = Inr t \<and> decrypt_data env (PyStr t) = Inr p))"
proof (intro conjI impI)
  show "encrypt_data env n [] = Inr []" by (rule encrypt_data_empty)
  show "decrypt_data env (PyStr []) = Inr []" by (rule decrypt_data_empty)
next
  assume ne: "p \<noteq> []" and c: "get_cipher env = Inr c"
    and fr: "fernet_roundtrip env c" and cr: "codec_roundtrip env"
    and b: "str_encode env p = Inr b"
  from fr obtain t where dec: "f_decrypt c (f_encrypt c n b) = Inr b"
    and t: "t \<noteq> []" "bytes_decode env (f_encrypt c n b) = Inr t"
    unfolding fernet_roundtrip_def by blast
  have enc: "encrypt_data env n p = Inr t"
    using ne c b t(2) by (simp add: encrypt_data_def bindE_Inr)
  from cr t(2) have tok: "str_encode env t = Inr (f_encrypt c n b)"
    unfolding codec_roundtrip_def by blast
  from cr b have plain: "bytes_decode env b = Inr p"
    unfolding codec_roundtrip_def by blast
  have "decrypt_body env (PyStr t) = Inr p"
    using c tok dec plain by (simp add: decrypt_body_def bindE_Inr)
  then have "decrypt_data env (PyStr t) = Inr p"
    using t(1) by (simp add: decrypt_data_succeeds)
  with enc show "\<exists>t. encrypt_data env n p = Inr t \<and> decrypt_data env (PyStr t) = Inr p"
    by blast
qed

text \<open>
  C8, in the reference environment at the plaintext \<open>John Doe\<close>.
\<close>

theorem encrypt_decrypt_roundtrip_witness:
  "''John Doe'' \<noteq> [] \<and> get_cipher ref_env = Inr (ref_fernet ''K1'') \<and>
   fernet_roundtrip ref_env (ref_fernet ''K1'') \<and> codec_roundtrip ref_env \<and>
   str_encode ref_env ''John Doe'' = Inr (Bytes ''John Doe'') \<and>
   (\<exists>t. encrypt_data ref_env (Bytes ''A'') ''John Doe'' = Inr t \<and>
        decrypt_data ref_env (PyStr t) = Inr ''John Doe'')"
  using encrypt_decrypt_roundtrip [of ref_env "Bytes ''A''" "''John Doe''" "ref_fernet ''K1''"
      "Bytes ''John Doe''"]
  by (simp add: get_cipher_ref fernet_roundtrip_ref codec_roundtrip_ref ref_env_codec)

section \<open>Properties of the disclosure engine\<close>

text \<open>
  C1. For every patient record and every role other than \<open>admin\<close>, \<open>doctor\<close> and
  \<open>receptionist\<close>, the engine returns a view (it does not raise) whose name, contact and
  diagnosis are the marker \<open>[Restricted]\<close> and whose \<open>patient_id\<close> and \<open>date_added\<close> are
  those of the record. The environment is arbitrary: neither key nor cipher is consulted.
\<close>

theorem unknown_role_fully_restricted:
  assumes "role \<notin> {''admin'', ''doctor'', ''receptionist''}"
    and "patient_data ''patient_id'' = Some pid"
    and "patient_data ''date_added'' = Some da"
  shows "prepare_patient_data_for_role env patient_data role =
           Inr [''patient_id'' \<mapsto> pid, ''name'' \<mapsto> PyStr ''[Restricted]'',
                ''contact'' \<mapsto> PyStr ''[Restricted]'', ''diagnosis'' \<mapsto> PyStr ''[Restricted]'',
                ''date_added'' \<mapsto> da]"
proof -
  from assms(1) have "role \<noteq> ''admin''" "role \<noteq> ''doctor''" "role \<noteq> ''receptionist''"
    by auto
  then show ?thesis
    using assms(2,3) by (simp add: prepare_other view_def)
qed

text \<open>
  C1, at the role \<open>hacker\<close> in a process without a key, and at the empty role.
\<close>

theorem unknown_role_witness:
  "''hacker'' \<notin> {''admin'', ''doctor'', ''receptionist''} \<and>
   prepare_patient_data_for_role keyless_env sample_patient_data ''hacker'' =
     Inr [''patient_id'' \<mapsto> PyInt 1, ''name'' \<mapsto> PyStr ''[Restricted]'',
          ''contact'' \<mapsto> PyStr ''[Restricted]'', ''diagnosis'' \<mapsto> PyStr ''[Restricted]'',
          ''date_added'' \<mapsto> PyStr ''2025-01-01''] \<and>
   prepare_patient_data_for_role ref_env sample_patient_data [] =
     Inr [''patient_id'' \<mapsto> PyInt 1, ''name'' \<mapsto> PyStr ''[Restricted]'',
          ''contact'' \<mapsto> PyStr ''[Restricted]'', ''diagnosis'' \<mapsto> PyStr ''[Restricted]'',
          ''date_added'' \<mapsto> PyStr ''2025-01-01'']"
  using unknown_role_fully_restricted [of "''hacker''" sample_patient_data "PyInt 1"
      "PyStr ''2025-01-01''" keyless_env]
    unknown_role_fully_restricted [of "[]" sample_patient_data "PyInt 1"
      "PyStr ''2025-01-01''" ref_env]
  by (simp add: sample_lookup)

text \<open>
  C2. For every patient record with an integer \<open>patient_id\<close>, the name of the doctor
  view, and of the receptionist view, is \<open>ANON_\<close> followed by the decimal \<open>patient_id\<close>.
  The stored name is not read at all: the view is the same whatever the \<open>name\<close> entry
  holds, and also when the record has no such entry.
\<close>

theorem non_admin_name_is_anon_id:
  assumes "role \<in> {''doctor'', ''receptionist''}"
    and "d ''patient_id'' = Some (PyInt pid)" and "d ''contact'' = Some c"
    and "d ''diagnosis'' = Some g" and "d ''date_added'' = Some da"
  shows "\<exists>v. prepare_patient_data_for_role env d role = Inr v \<and>
           v ''name'' = Some (PyStr (''ANON_'' @ str_int pid)) \<and>
           (\<forall>x. prepare_patient_data_for_role env (d(''name'' := x)) role = Inr v)"
proof -
  obtain sc where sc: "decrypt_data env c = Inr sc" using decrypt_data_returns by blast
  obtain sg where sg: "decrypt_data env g = Inr sg" using decrypt_data_returns by blast
  from assms(1) consider "role = ''doctor''" | "role = ''receptionist''" by auto
  then show ?thesis
  proof cases
    case 1
    let ?v = "view (PyInt pid) (anonymize_name (PyInt pid)) (anonymize_contact sc)
                (anonymize_diagnosis sg) da"
    have "prepare_patient_data_for_role env d role = Inr ?v"
      using 1 assms(2-5) sc sg by (simp add: prepare_doctor)
    moreover have "?v ''name'' = Some (PyStr (''ANON_'' @ str_int pid))"
      by (simp add: view_lookup anonymize_name_def)
    moreover have "\<forall>x. prepare_patient_data_for_role env (d(''name'' := x)) role = Inr ?v"
      using 1 assms(2-5) sc sg by (simp add: prepare_doctor)
    ultimately show ?thesis by blast
  next
    case 2
    let ?v = "view (PyInt pid) (anonymize_name (PyInt pid)) (anonymize_contact sc)
                ''[Restricted]'' da"
    have "prepare_patient_data_for_role env d role = Inr ?v"
      using 2 assms(2-5) sc by (simp add: prepare_receptionist)
    moreover have "?v ''name'' = Some (PyStr (''ANON_'' @ str_int pid))"
      by (simp add: view_lookup anonymize_name_def)
    moreover have "\<forall>x. prepare_patient_data_for_role env (d(''name'' := x)) role = Inr ?v"
      using 2 assms(2-5) sc by (simp add: prepare_receptionist)
    ultimately show ?thesis by blast
  qed
qed

text \<open>
  C2, at the sample record seen by a doctor: the name is \<open>ANON_1\<close>, also after the stored
  name has been replaced or removed; and at patient 1021 seen by a receptionist.
\<close>

theorem non_admin_name_witness:
  "''doctor'' \<in> {''doctor'', ''receptionist''} \<and>
   (\<exists>v. prepare_patient_data_for_role ref_env sample_patient_data ''doctor'' = Inr v \<and>
        v ''name'' = Some (PyStr ''ANON_1'') \<and>
        prepare_patient_data_for_role ref_env
          (sample_patient_data(''name'' \<mapsto> PyStr ''K1AJane Roe'')) ''doctor'' = Inr v \<and>
        prepare_patient_data_for_role ref_env
          (sample_patient_data(''name'' := None)) ''doctor'' = Inr v) \<and>
   (\<exists>v. prepare_patient_data_for_role ref_env
          (sample_patient_data(''patient_id'' \<mapsto> PyInt 1021)) ''receptionist'' = Inr v \<and>
        v ''name'' = Some (PyStr ''ANON_1021''))"
proof -
  have one: "str_int 1 = ''1''"
    by code_simp
  have more: "str_int 1021 = ''1021''"
    by code_simp
  have doc: "\<exists>v. prepare_patient_data_for_role ref_env sample_patient_data ''doctor'' = Inr v \<and>
        v ''name'' = Some (PyStr ''ANON_1'') \<and>
        prepare_patient_data_for_role ref_env
          (sample_patient_data(''name'' \<mapsto> PyStr ''K1AJane Roe'')) ''doctor'' = Inr v \<and>
        prepare_patient_data_for_role ref_env
          (sample_patient_data(''name'' := None)) ''doctor'' = Inr v"
    using non_admin_name_is_anon_id [of "''doctor''" sample_patient_data 1
        "PyStr ''K1A123-456-7890''" "PyStr ''K1AFever and flu''" "PyStr ''2025-01-01''" ref_env]
    by (simp add: sample_lookup one) blast
  have rec: "\<exists>v. prepare_patient_data_for_role ref_env
          (sample_patient_data(''patient_id'' \<mapsto> PyInt 1021)) ''receptionist'' = Inr v \<and>
        v ''name'' = Some (PyStr ''ANON_1021'')"
    using non_admin_name_is_anon_id [of "''receptionist''"
        "sample_patient_data(''patient_id'' \<mapsto> PyInt 1021)" 1021
        "PyStr ''K1A123-456-7890''" "PyStr ''K1AFever and flu''" "PyStr ''2025-01-01''" ref_env]
    by (simp add: sample_lookup more) blast
  from doc rec show ?thesis by simp
qed

text \<open>
  C5 as stated fails for the administrator: with an empty stored diagnosis, the admin
  view shows the empty string, not the restriction marker.
\<close>

theorem empty_diagnosis_admin_counterexample:
  "prepare_patient_data_for_role ref_env
     (sample_patient_data(''diagnosis'' \<mapsto> PyStr [])) ''admin'' =
     Inr (view (PyInt 1) ''John Doe'' ''123-456-7890'' [] (PyStr ''2025-01-01'')) \<and>
   view (PyInt 1) ''John Doe'' ''123-456-7890'' [] (PyStr ''2025-01-01'') ''diagnosis'' \<noteq>
     Some (PyStr ''[Restricted]'')"
proof -
  have n: "decrypt_data ref_env (PyStr ''K1AJohn Doe'') = Inr ''John Doe''"
    using decrypt_data_ref_token [of "''John Doe''"] by simp
  have c: "decrypt_data ref_env (PyStr ''K1A123-456-7890'') = Inr ''123-456-7890''"
    using decrypt_data_ref_token [of "''123-456-7890''"] by simp
  have "prepare_patient_data_for_role ref_env
     (sample_patient_data(''diagnosis'' \<mapsto> PyStr [])) ''admin'' =
     Inr (view (PyInt 1) ''John Doe'' ''123-456-7890'' [] (PyStr ''2025-01-01''))"
    using prepare_admin [of "sample_patient_data(''diagnosis'' \<mapsto> PyStr [])" "PyInt 1"
        "PyStr ''K1AJohn Doe''" "PyStr ''K1A123-456-7890''" "PyStr []" "PyStr ''2025-01-01''"
        ref_env "''John Doe''" "''123-456-7890''" "[]"]
    by (simp add: sample_lookup n c decrypt_data_empty)
  then show ?thesis by (simp add: view_lookup)
qed

text \<open>
  C5, amended. For every patient record whose stored diagnosis is the empty string,
  \<open>decrypt_data\<close> returns the empty string for it without entering the \<open>try\<close> block, in
  every environment; the diagnosis of the doctor view is the restriction marker, and the
  diagnosis of the admin view is the empty string.
\<close>

theorem empty_diagnosis_short_circuits:
  assumes "d ''patient_id'' = Some pid" and "d ''name'' = Some n" and "d ''contact'' = Some c"
    and "d ''diagnosis'' = Some (PyStr [])" and "d ''date_added'' = Some da"
  shows "decrypt_data env (PyStr []) = Inr [] \<and> \<not> decryption_fails env (PyStr []) \<and>
    (\<exists>v. prepare_patient_data_for_role env d ''doctor'' = Inr v \<and>
         v ''diagnosis'' = Some (PyStr ''[Restricted]'')) \<and>
    (\<exists>v. prepare_patient_data_for_role env d ''admin'' = Inr v \<and>
         v ''diagnosis'' = Some (PyStr []))"
proof -
  obtain sn where sn: "decrypt_data env n = Inr sn" using decrypt_data_returns by blast
  obtain sc where sc: "decrypt_data env c = Inr sc" using decrypt_data_returns by blast
  have doc: "prepare_patient_data_for_role env d ''doctor'' =
      Inr (view pid (anonymize_name pid) (anonymize_contact sc) (anonymize_diagnosis []) da)"
    using assms sc by (simp add: prepare_doctor decrypt_data_empty)
  have adm: "prepare_patient_data_for_role env d ''admin'' = Inr (view pid sn sc [] da)"
    using assms sn sc by (simp add: prepare_admin decrypt_data_empty)
  show ?thesis
    using doc adm
    by (simp add: decrypt_data_empty not_fails_empty view_lookup anonymize_diagnosis_empty)
qed

text \<open>
  C5, amended, at the sample record with its diagnosis emptied: the doctor view in a
  process without a key, where any attempt to decrypt would give the error marker, and
  the admin view in the reference environment.
\<close>

theorem empty_diagnosis_witness:
  "(\<exists>v. prepare_patient_data_for_role keyless_env
          (sample_patient_data(''diagnosis'' \<mapsto> PyStr [])) ''doctor'' = Inr v \<and>
        v ''diagnosis'' = Some (PyStr ''[Restricted]'')) \<and>
   (\<exists>v. prepare_patient_data_for_role ref_env
          (sample_patient_data(''diagnosis'' \<mapsto> PyStr [])) ''admin'' = Inr v \<and>
        v ''diagnosis'' = Some (PyStr []))"
  using empty_diagnosis_short_circuits [of "sample_patient_data(''diagnosis'' \<mapsto> PyStr [])"
      "PyInt 1" "PyStr ''K1AJohn Doe''" "PyStr ''K1A123-456-7890''" "PyStr ''2025-01-01''"
      keyless_env]
    empty_diagnosis_short_circuits [of "sample_patient_data(''diagnosis'' \<mapsto> PyStr [])"
      "PyInt 1" "PyStr ''K1AJohn Doe''" "PyStr ''K1A123-456-7890''" "PyStr ''2025-01-01''"
      ref_env]
  by (simp add: sample_lookup)

text \<open>
  C6 as stated fails for the doctor: when the stored contact cannot be decrypted, the
  contact of the doctor view is the masked text \<open>XXX-XXX-ror]\<close>, in which the error
  marker does not occur.
\<close>

theorem masked_sentinel_counterexample:
  "decryption_fails ref_env (PyStr ''not-a-token'') \<and>
   prepare_patient_data_for_role ref_env
     (sample_patient_data(''contact'' \<mapsto> PyStr ''not-a-token'')) ''doctor'' =
     Inr (view (PyInt 1) ''ANON_1'' ''XXX-XXX-ror]'' ''Respiratory Condition''
            (PyStr ''2025-01-01'')) \<and>
   \<not> str_in ''[Decryption Error]'' ''XXX-XXX-ror]''"
proof -
  have c: "decrypt_data ref_env (PyStr ''not-a-token'') = Inr ''[Decryption Error]''"
    using decryption_fails_ref by (rule decrypt_data_fails)
  have g: "decrypt_data ref_env (PyStr ''K1AFever and flu'') = Inr ''Fever and flu''"
    using decrypt_data_ref_token [of "''Fever and flu''"] by simp
  have cat: "anonymize_diagnosis ''Fever and flu'' = ''Respiratory Condition''"
    by code_simp
  have nm: "anonymize_name (PyInt 1) = ''ANON_1''"
    by code_simp
  have "prepare_patient_data_for_role ref_env
     (sample_patient_data(''contact'' \<mapsto> PyStr ''not-a-token'')) ''doctor'' =
     Inr (view (PyInt 1) (anonymize_name (PyInt 1)) (anonymize_contact ''[Decryption Error]'')
            (anonymize_diagnosis ''Fever and flu'') (PyStr ''2025-01-01''))"
    using prepare_doctor [of "sample_patient_data(''contact'' \<mapsto> PyStr ''not-a-token'')"
        "PyInt 1" "PyStr ''not-a-token''" "PyStr ''K1AFever and flu''" "PyStr ''2025-01-01''"
        ref_env "''[Decryption Error]''" "''Fever and flu''"]
    by (simp add: sample_lookup c g)
  then show ?thesis
    using decryption_fails_ref by (simp add: nm cat anonymize_contact_sentinel)
qed

text \<open>
  C6, amended. For every patient record with its five entries, the engine returns a
  view for each of the three roles, and each sensitive field of the view depends on its
  own stored value only. When decryption of a stored value fails, its plaintext is the
  error marker: the admin view shows the marker itself, while the doctor and
  receptionist views show the masked contact \<open>XXX-XXX-ror]\<close>, and the doctor view the
  generic category for a diagnosis.
\<close>

theorem decryption_failure_is_field_local:
  assumes "d ''patient_id'' = Some pid" and "d ''name'' = Some n" and "d ''contact'' = Some c"
    and "d ''diagnosis'' = Some g" and "d ''date_added'' = Some da"
  shows "\<exists>sn sc sg.
    decrypt_data env n = Inr sn \<and> decrypt_data env c = Inr sc \<and> decrypt_data env g = Inr sg \<and>
    (decryption_fails env n \<longrightarrow> sn = ''[Decryption Error]'') \<and>
    (decryption_fails env c \<longrightarrow>
       sc = ''[Decryption Error]'' \<and> anonymize_contact sc = ''XXX-XXX-ror]'') \<and>
    (decryption_fails env g \<longrightarrow>
       sg = ''[Decryption Error]'' \<and> anonymize_diagnosis sg = ''General Medical Condition'') \<and>
    prepare_patient_data_for_role env d ''admin'' = Inr (view pid sn sc sg da) \<and>
    prepare_patient_data_for_role env d ''doctor'' =
      Inr (view pid (anonymize_name pid) (anonymize_contact sc) (anonymize_diagnosis sg) da) \<and>
    prepare_patient_data_for_role env d ''receptionist'' =
      Inr (view pid (anonymize_name pid) (anonymize_contact sc) ''[Restricted]'' da)"
proof -
  obtain sn where sn: "decrypt_data env n = Inr sn" using decrypt_data_returns by blast
  obtain sc where sc: "decrypt_data env c = Inr sc" using decrypt_data_returns by blast
  obtain sg where sg: "decrypt_data env g = Inr sg" using decrypt_data_returns by blast
  have fn: "decryption_fails env n \<longrightarrow> sn = ''[Decryption Error]''"
    using sn decrypt_data_fails [of env n] by auto
  have fc: "decryption_fails env c \<longrightarrow>
       sc = ''[Decryption Error]'' \<and> anonymize_contact sc = ''XXX-XXX-ror]''"
    using sc decrypt_data_fails [of env c] by (auto simp: anonymize_contact_sentinel)
  have fg: "decryption_fails env g \<longrightarrow>
       sg = ''[Decryption Error]'' \<and> anonymize_diagnosis sg = ''General Medical Condition''"
    using sg decrypt_data_fails [of env g] by (auto simp: anonymize_diagnosis_sentinel)
  have adm: "prepare_patient_data_for_role env d ''admin'' = Inr (view pid sn sc sg da)"
    using assms sn sc sg by (rule prepare_admin)
  have doc: "prepare_patient_data_for_role env d ''doctor'' =
      Inr (view pid (anonymize_name pid) (anonymize_contact sc) (anonymize_diagnosis sg) da)"
    using assms(1,3,4,5) sc sg by (rule prepare_doctor)
  have rec: "prepare_patient_data_for_role env d ''receptionist'' =
      Inr (view pid (anonymize_name pid) (anonymize_contact sc) ''[Restricted]'' da)"
    using assms(1,3,5) sc by (rule prepare_receptionist)
  from sn sc sg fn fc fg adm doc rec show ?thesis by blast
qed

text \<open>
  C6, amended, at the sample record with a corrupted diagnosis: the administrator still
  sees the decrypted name and contact next to the error marker, and the doctor sees the
  generic category.
\<close>

theorem decryption_failure_witness:
  "decryption_fails ref_env (PyStr ''not-a-token'') \<and>
   prepare_patient_data_for_role ref_env
     (sample_patient_data(''diagnosis'' \<mapsto> PyStr ''not-a-token'')) ''admin'' =
     Inr (view (PyInt 1) ''John Doe'' ''123-456-7890'' ''[Decryption Error]''
            (PyStr ''2025-01-01'')) \<and>
   prepare_patient_data_for_role ref_env
     (sample_patient_data(''diagnosis'' \<mapsto> PyStr ''not-a-token'')) ''doctor'' =
     Inr (view (PyInt 1) ''ANON_1'' ''XXX-XXX-7890'' ''General Medical Condition''
            (PyStr ''2025-01-01''))"
proof -
  have n: "decrypt_data ref_env (PyStr ''K1AJohn Doe'') = Inr ''John Doe''"
    using decrypt_data_ref_token [of "''John Doe''"] by simp
  have c: "decrypt_data ref_env (PyStr ''K1A123-456-7890'') = Inr ''123-456-7890''"
    using decrypt_data_ref_token [of "''123-456-7890''"] by simp
  have nm: "anonymize_name (PyInt 1) = ''ANON_1''"
    by code_simp
  have ct: "anonymize_contact ''123-456-7890'' = ''XXX-XXX-7890''"
    by (simp add: anonymize_contact_long)
  show ?thesis
    using decryption_failure_is_field_local
      [of "sample_patient_data(''diagnosis'' \<mapsto> PyStr ''not-a-token'')" "PyInt 1"
        "PyStr ''K1AJohn Doe''" "PyStr ''K1A123-456-7890''" "PyStr ''not-a-token''"
        "PyStr ''2025-01-01''" ref_env]
      decryption_fails_ref
    by (auto simp: sample_lookup n c nm ct)
qed

end
